theory Spec2Isabelle
  imports Complex_Main
begin

section \<open>Numbers and errors\<close>

text \<open>
  The scripts compute with Python numbers. They are embedded as exact reals: every
  arithmetic operation is the mathematical one, so the binary rounding of IEEE doubles
  is outside this development. What the code does beyond arithmetic (raising on a zero
  divisor, on a logarithm of a non-positive number or on an unbound name, rounding to
  two decimals) is written out. Rounding to two decimals does not commute with the
  rounding of doubles, so the binomial worksheet is given a second time below, over an
  arbitrary arithmetic.
\<close>

datatype py_error = ZeroDivisionError | ValueError | NameError

text \<open>Python's true division \<^verbatim>\<open>a / b\<close>: raises on a zero divisor.\<close>

definition py_div :: "real \<Rightarrow> real \<Rightarrow> py_error + real" where
  "py_div a b = (if b = 0 then Inl ZeroDivisionError else Inr (a / b))"

text \<open>\<^verbatim>\<open>math.log(x)\<close>: raises a domain error unless the argument is positive.\<close>

definition py_log :: "real \<Rightarrow> py_error + real" where
  "py_log x = (if x \<le> 0 then Inl ValueError else Inr (ln x))"

text \<open>Sequencing: an exception raised by a step skips everything after it.\<close>

definition and_then :: "py_error + 'a \<Rightarrow> ('a \<Rightarrow> py_error + 'b) \<Rightarrow> py_error + 'b" where
  "and_then m f = (case m of Inl e \<Rightarrow> Inl e | Inr v \<Rightarrow> f v)"

text \<open>
  The builtin \<^verbatim>\<open>round(x, ndigits)\<close> for \<^verbatim>\<open>ndigits \<ge> 0\<close>: the nearest
  multiple of \<open>10 ^ -ndigits\<close>, a tie going to the even last digit.
\<close>

definition py_round :: "real \<Rightarrow> nat \<Rightarrow> real" where
  "py_round x ndigits =
     (let m = 10 ^ ndigits;
          y = x * m;
          f = \<lfloor>y\<rfloor>;
          frac = y - of_int f
      in of_int (if frac < 1 / 2 then f
                 else if 1 / 2 < frac then f + 1
                 else if even f then f else f + 1) / m)"

section \<open>The single-period binomial worksheet (SinglePeriodBinomial.py)\<close>

text \<open>The dictionary that \<^verbatim>\<open>binomial_CPT_paper\<close> returns, one field per key.\<close>

record cpt =
  cpt_S0 :: real
  cpt_Su :: real
  cpt_Sd :: real
  cpt_Cu :: real
  cpt_Cd :: real
  cpt_R :: real
  cpt_p :: real
  cpt_Expected_Payoff :: real
  cpt_Delta :: real
  cpt_Bond :: real
  cpt_Price :: real

text \<open>
  The function, statement by statement. The three divisions are the only operations
  that can raise; an error leaves the function at once, as the exception does.
\<close>

definition binomial_CPT_paper ::
  "real \<Rightarrow> real \<Rightarrow> real \<Rightarrow> real \<Rightarrow> real \<Rightarrow> real \<Rightarrow> string \<Rightarrow> py_error + cpt" where
  "binomial_CPT_paper S0 K r T u d option =
     (let Su = S0 * u;
          Sd = S0 * d;
          Cu = (if option = ''call'' then max (Su - K) 0 else max (K - Su) 0);
          Cd = (if option = ''call'' then max (Sd - K) 0 else max (K - Sd) 0);
          R = 1 + r * T
      in and_then (py_div (R - d) (u - d)) (\<lambda>q.
           let p = py_round q 2;
               expected_payoff = p * Cu + (1 - p) * Cd
           in and_then (py_div expected_payoff R) (\<lambda>disc.
                let price = py_round disc 2
                in and_then (py_div (Cu - Cd) (Su - Sd)) (\<lambda>h.
                     let delta = py_round h 2;
                         B = py_round (price - delta * S0) 2
                     in Inr \<lparr>cpt_S0 = S0, cpt_Su = Su, cpt_Sd = Sd,
                             cpt_Cu = Cu, cpt_Cd = Cd, cpt_R = R, cpt_p = p,
                             cpt_Expected_Payoff = expected_payoff,
                             cpt_Delta = delta, cpt_Bond = B, cpt_Price = price\<rparr>))))"

text \<open>
  The arithmetic of the interpreter, left open: what \<^verbatim>\<open>*\<close>, \<^verbatim>\<open>+\<close>, \<^verbatim>\<open>-\<close>,
  \<^verbatim>\<open>/\<close> (on a divisor that is not zero) and \<^verbatim>\<open>round(x, ndigits)\<close> return.
  Comparisons, \<^verbatim>\<open>max\<close> and the literals \<^verbatim>\<open>0\<close> and \<^verbatim>\<open>1\<close> involve no rounding.
\<close>

record arith =
  ar_mul :: "real \<Rightarrow> real \<Rightarrow> real"
  ar_add :: "real \<Rightarrow> real \<Rightarrow> real"
  ar_sub :: "real \<Rightarrow> real \<Rightarrow> real"
  ar_quot :: "real \<Rightarrow> real \<Rightarrow> real"
  ar_round :: "real \<Rightarrow> nat \<Rightarrow> real"

text \<open>Exact arithmetic, the one the definition above is written in.\<close>

definition exact_arith :: arith where
  "exact_arith = \<lparr>ar_mul = (*), ar_add = (+), ar_sub = (-), ar_quot = (/), ar_round = py_round\<rparr>"

text \<open>
  The arithmetic of doubles (IEEE 754 binary64, rounding to nearest, ties to the even
  mantissa). \<open>binary64 x\<close> is the double nearest \<open>x\<close>: 53 significant bits, the
  spacing never below \<open>2 ^ -1074\<close>. Results beyond the largest double are not modelled.
\<close>

definition round_half_even :: "real \<Rightarrow> int" where
  "round_half_even y =
     (let f = \<lfloor>y\<rfloor>;
          frac = y - of_int f
      in if frac < 1 / 2 then f
         else if 1 / 2 < frac then f + 1
         else if even f then f else f + 1)"

definition binary64 :: "real \<Rightarrow> real" where
  "binary64 x =
     (if x = 0 then 0
      else let e = max \<lfloor>log 2 \<bar>x\<bar>\<rfloor> (- 1022);
               ulp = 2 powr (of_int e - 52)
           in of_int (round_half_even (x / ulp)) * ulp)"

text \<open>
  Each operation on doubles returns the double nearest the exact result, and
  \<^verbatim>\<open>round(x, ndigits)\<close> the double nearest the decimal that \<open>py_round\<close> finds for \<open>x\<close>.
\<close>

definition double_arith :: arith where
  "double_arith =
     \<lparr>ar_mul = (\<lambda>a b. binary64 (a * b)),
      ar_add = (\<lambda>a b. binary64 (a + b)),
      ar_sub = (\<lambda>a b. binary64 (a - b)),
      ar_quot = (\<lambda>a b. binary64 (a / b)),
      ar_round = (\<lambda>x ndigits. binary64 (py_round x ndigits))\<rparr>"

text \<open>True division in an arithmetic: raises on a zero divisor.\<close>

definition ar_div :: "arith \<Rightarrow> real \<Rightarrow> real \<Rightarrow> py_error + real" where
  "ar_div ar a b = (if b = 0 then Inl ZeroDivisionError else Inr (ar_quot ar a b))"

text \<open>
  The function once more, statement by statement, every operation carried out by the
  arithmetic \<open>ar\<close>.
\<close>

definition binomial_CPT_paper_in ::
  "arith \<Rightarrow> real \<Rightarrow> real \<Rightarrow> real \<Rightarrow> real \<Rightarrow> real \<Rightarrow> real \<Rightarrow> string \<Rightarrow> py_error + cpt" where
  "binomial_CPT_paper_in ar S0 K r T u d option =
     (let Su = ar_mul ar S0 u;
          Sd = ar_mul ar S0 d;
          Cu = (if option = ''call'' then max (ar_sub ar Su K) 0 else max (ar_sub ar K Su) 0);
          Cd = (if option = ''call'' then max (ar_sub ar Sd K) 0 else max (ar_sub ar K Sd) 0);
          R = ar_add ar 1 (ar_mul ar r T)
      in and_then (ar_div ar (ar_sub ar R d) (ar_sub ar u d)) (\<lambda>q.
           let p = ar_round ar q 2;
               expected_payoff = ar_add ar (ar_mul ar p Cu) (ar_mul ar (ar_sub ar 1 p) Cd)
           in and_then (ar_div ar expected_payoff R) (\<lambda>disc.
                let price = ar_round ar disc 2
                in and_then (ar_div ar (ar_sub ar Cu Cd) (ar_sub ar Su Sd)) (\<lambda>h.
                     let delta = ar_round ar h 2;
                         B = ar_round ar (ar_sub ar price (ar_mul ar delta S0)) 2
                     in Inr \<lparr>cpt_S0 = S0, cpt_Su = Su, cpt_Sd = Sd,
                             cpt_Cu = Cu, cpt_Cd = Cd, cpt_R = R, cpt_p = p,
                             cpt_Expected_Payoff = expected_payoff,
                             cpt_Delta = delta, cpt_Bond = B, cpt_Price = price\<rparr>))))"

text \<open>
  The worksheet as the specification words it: payoffs by option kind, the growth factor,
  the probability rounded first, one discounting, and the replication quantities.
\<close>

definition spec_payoff :: "arith \<Rightarrow> string \<Rightarrow> real \<Rightarrow> real \<Rightarrow> real" where
  "spec_payoff ar option S K =
     (if option = ''call'' then max (ar_sub ar S K) 0 else max (ar_sub ar K S) 0)"

definition spec_R :: "arith \<Rightarrow> real \<Rightarrow> real \<Rightarrow> real" where
  "spec_R ar r T = ar_add ar 1 (ar_mul ar r T)"

definition spec_p :: "arith \<Rightarrow> real \<Rightarrow> real \<Rightarrow> real \<Rightarrow> real \<Rightarrow> real" where
  "spec_p ar r T u d = ar_round ar (ar_quot ar (ar_sub ar (spec_R ar r T) d) (ar_sub ar u d)) 2"

definition spec_expected ::
  "arith \<Rightarrow> real \<Rightarrow> real \<Rightarrow> real \<Rightarrow> real \<Rightarrow> real \<Rightarrow> real \<Rightarrow> string \<Rightarrow> real" where
  "spec_expected ar S0 K r T u d option =
     ar_add ar
       (ar_mul ar (spec_p ar r T u d) (spec_payoff ar option (ar_mul ar S0 u) K))
       (ar_mul ar (ar_sub ar 1 (spec_p ar r T u d)) (spec_payoff ar option (ar_mul ar S0 d) K))"

definition spec_price ::
  "arith \<Rightarrow> real \<Rightarrow> real \<Rightarrow> real \<Rightarrow> real \<Rightarrow> real \<Rightarrow> real \<Rightarrow> string \<Rightarrow> real" where
  "spec_price ar S0 K r T u d option =
     ar_round ar (ar_quot ar (spec_expected ar S0 K r T u d option) (spec_R ar r T)) 2"

definition spec_delta :: "arith \<Rightarrow> real \<Rightarrow> real \<Rightarrow> real \<Rightarrow> real \<Rightarrow> string \<Rightarrow> real" where
  "spec_delta ar S0 K u d option =
     ar_round ar
       (ar_quot ar
          (ar_sub ar (spec_payoff ar option (ar_mul ar S0 u) K)
                     (spec_payoff ar option (ar_mul ar S0 d) K))
          (ar_sub ar (ar_mul ar S0 u) (ar_mul ar S0 d))) 2"

definition spec_bond ::
  "arith \<Rightarrow> real \<Rightarrow> real \<Rightarrow> real \<Rightarrow> real \<Rightarrow> real \<Rightarrow> real \<Rightarrow> string \<Rightarrow> real" where
  "spec_bond ar S0 K r T u d option =
     ar_round ar
       (ar_sub ar (spec_price ar S0 K r T u d option)
                  (ar_mul ar (spec_delta ar S0 K u d option) S0)) 2"

section \<open>The Black-Scholes dashboard (models/black_scholes.py)\<close>

subsection \<open>Library functions the script calls\<close>

text \<open>
  \<^verbatim>\<open>scipy.stats.norm.cdf\<close> and \<^verbatim>\<open>norm.pdf\<close> are the distribution function and the
  density of the standard normal law. The distribution function is
  \<open>(1 + erf (x / sqrt 2)) / 2\<close>, with the error function given by its power series.
\<close>

definition erf_term :: "real \<Rightarrow> nat \<Rightarrow> real" where
  "erf_term x k = (- 1) ^ k * x ^ (2 * k + 1) / (fact k * real (2 * k + 1))"

definition erf :: "real \<Rightarrow> real" where
  "erf x = 2 / sqrt pi * (\<Sum>k. erf_term x k)"

definition norm_cdf :: "real \<Rightarrow> real" where
  "norm_cdf x = (1 + erf (x / sqrt 2)) / 2"

definition norm_pdf :: "real \<Rightarrow> real" where
  "norm_pdf x = exp (- (x\<^sup>2) / 2) / sqrt (2 * pi)"

text \<open>
  \<^verbatim>\<open>np.linspace(start, stop, num)\<close>: \<open>num\<close> evenly spaced samples, both ends included
  (numpy stores \<open>stop\<close> itself as the last sample, which is the same real number).
\<close>

definition linspace :: "real \<Rightarrow> real \<Rightarrow> nat \<Rightarrow> real list" where
  "linspace start stop num =
     (if num = 1 then [start]
      else map (\<lambda>i. start + real i * ((stop - start) / real (num - 1))) [0..<num])"

subsection \<open>Pricing and greeks\<close>

text \<open>The tuple that \<^verbatim>\<open>bs_call_put\<close> returns, in the order of its docstring.\<close>

record bs_out =
  bs_call :: real
  bs_put :: real
  bs_call_delta :: real
  bs_put_delta :: real
  bs_gamma :: real
  bs_vega :: real
  bs_call_theta :: real
  bs_put_theta :: real

definition bs_call_put :: "real \<Rightarrow> real \<Rightarrow> real \<Rightarrow> real \<Rightarrow> real \<Rightarrow> py_error + bs_out" where
  "bs_call_put S K r sigma T =
     (if T \<le> 0 then
        (let call = max (S - K) 0;
             put = max (K - S) 0;
             call_delta = (if S > K then 1 else 0);
             put_delta = call_delta - 1;
             gamma = 0;
             vega = 0;
             call_theta = 0;
             put_theta = 0
         in Inr \<lparr>bs_call = call, bs_put = put, bs_call_delta = call_delta,
                 bs_put_delta = put_delta, bs_gamma = gamma, bs_vega = vega,
                 bs_call_theta = call_theta, bs_put_theta = put_theta\<rparr>)
      else
        and_then (py_div S K) (\<lambda>m.
        and_then (py_log m) (\<lambda>lg.
        and_then (py_div (lg + (r + 0.5 * sigma\<^sup>2) * T) (sigma * sqrt T)) (\<lambda>d1.
          let d2 = d1 - sigma * sqrt T;
              call = S * norm_cdf d1 - K * exp (- r * T) * norm_cdf d2;
              put = K * exp (- r * T) * norm_cdf (- d2) - S * norm_cdf (- d1);
              call_delta = norm_cdf d1;
              put_delta = call_delta - 1;
              pdf_d1 = norm_pdf d1
          in and_then (py_div pdf_d1 (S * sigma * sqrt T)) (\<lambda>gamma.
               let vega = S * pdf_d1 * sqrt T
               in and_then (py_div (- S * pdf_d1 * sigma) (2 * sqrt T)) (\<lambda>decay_c.
                    let call_theta_annual = decay_c - r * K * exp (- r * T) * norm_cdf d2
                    in and_then (py_div (- S * pdf_d1 * sigma) (2 * sqrt T)) (\<lambda>decay_p.
                         let put_theta_annual =
                               decay_p + r * K * exp (- r * T) * norm_cdf (- d2)
                         in Inr \<lparr>bs_call = call, bs_put = put, bs_call_delta = call_delta,
                                 bs_put_delta = put_delta, bs_gamma = gamma, bs_vega = vega,
                                 bs_call_theta = call_theta_annual / 365,
                                 bs_put_theta = put_theta_annual / 365\<rparr>)))))))"

text \<open>The two arguments of the distribution function, as the specification writes them.\<close>

definition spec_d1 :: "real \<Rightarrow> real \<Rightarrow> real \<Rightarrow> real \<Rightarrow> real \<Rightarrow> real" where
  "spec_d1 S K r sigma T = (ln (S / K) + (r + 0.5 * sigma\<^sup>2) * T) / (sigma * sqrt T)"

definition spec_d2 :: "real \<Rightarrow> real \<Rightarrow> real \<Rightarrow> real \<Rightarrow> real \<Rightarrow> real" where
  "spec_d2 S K r sigma T = spec_d1 S K r sigma T - sigma * sqrt T"

subsection \<open>The script's inputs\<close>

text \<open>
  The module constants \<^verbatim>\<open>S_center\<close>, \<^verbatim>\<open>K\<close>, \<^verbatim>\<open>r\<close> and \<^verbatim>\<open>sigma\<close> (the last three
  carry a suffix here, their names being variables of the functions above). The time to
  expiry depends on the clock: \<open>secs\<close> stands for
  \<^verbatim>\<open>(expiry - now).total_seconds()\<close>.
\<close>

definition S_center :: real where "S_center = 82000"
definition K_input :: real where "K_input = 93800"
definition r_input :: real where "r_input = 0.05"
definition sigma_input :: real where "sigma_input = 0.50"

definition T_ref :: "real \<Rightarrow> real" where
  "T_ref secs = max (secs / (365 * 24 * 3600)) (1 / 10 ^ 8)"

subsection \<open>Rho against the interest rate (chart 6)\<close>

definition r_range :: "real list" where
  "r_range = linspace 0.0 0.20 200"

definition eps :: real where
  "eps = 1 / 10 ^ 5"

text \<open>\<^verbatim>\<open>np.empty_like\<close>: an array of the same length whose contents are not initialised.\<close>

definition empty_like :: "real list \<Rightarrow> real list" where
  "empty_like xs = replicate (length xs) undefined"

text \<open>
  The loop over \<^verbatim>\<open>enumerate(r_range)\<close>, carrying the two arrays it writes by index.
\<close>

fun rho_loop ::
  "real \<Rightarrow> (nat \<times> real) list \<Rightarrow> real list \<times> real list \<Rightarrow> py_error + real list \<times> real list" where
  "rho_loop T [] (call_rho_arr, put_rho_arr) = Inr (call_rho_arr, put_rho_arr)"
| "rho_loop T ((i, rr) # rest) (call_rho_arr, put_rho_arr) =
     and_then (bs_call_put S_center K_input (rr + eps) sigma_input T) (\<lambda>up.
     and_then (bs_call_put S_center K_input (rr - eps) sigma_input T) (\<lambda>dn.
       rho_loop T rest
         (call_rho_arr[i := (bs_call up - bs_call dn) / (2 * eps)],
          put_rho_arr[i := (bs_put up - bs_put dn) / (2 * eps)])))"

definition rho_arrays :: "real \<Rightarrow> py_error + real list \<times> real list" where
  "rho_arrays secs =
     rho_loop (T_ref secs) (enumerate 0 r_range) (empty_like r_range, empty_like r_range)"

text \<open>
  The value the loop stores at one rate, read off the two results of \<^verbatim>\<open>bs_call_put\<close>
  (used to describe the arrays once the loop is known not to raise).
\<close>

definition rho_call_at :: "real \<Rightarrow> real \<Rightarrow> real" where
  "rho_call_at T rr =
     (bs_call (projr (bs_call_put S_center K_input (rr + eps) sigma_input T))
      - bs_call (projr (bs_call_put S_center K_input (rr - eps) sigma_input T))) / (2 * eps)"

definition rho_put_at :: "real \<Rightarrow> real \<Rightarrow> real" where
  "rho_put_at T rr =
     (bs_put (projr (bs_call_put S_center K_input (rr + eps) sigma_input T))
      - bs_put (projr (bs_call_put S_center K_input (rr - eps) sigma_input T))) / (2 * eps)"

subsection \<open>The CSV sample\<close>

text \<open>A cell handed to \<^verbatim>\<open>csv.writer\<close>: a column title or a number.\<close>

datatype csv_cell = Title string | Num real

definition csv_header :: "csv_cell list" where
  "csv_header = map Title [''S'', ''CallPrice'', ''PutPrice'', ''CallDelta'', ''PutDelta'',
                           ''Gamma'', ''Vega'', ''CallTheta_per_day'', ''PutTheta_per_day'']"

text \<open>The loop over the spot sweep: one \<^verbatim>\<open>writerow\<close> per spot, in order.\<close>

fun csv_loop :: "real \<Rightarrow> real list \<Rightarrow> csv_cell list list \<Rightarrow> py_error + csv_cell list list" where
  "csv_loop T [] written = Inr written"
| "csv_loop T (S # rest) written =
     and_then (bs_call_put S K_input r_input sigma_input T) (\<lambda>out.
       csv_loop T rest
         (written @ [map Num [S, bs_call out, bs_put out, bs_call_delta out, bs_put_delta out,
                              bs_gamma out, bs_vega out, bs_call_theta out, bs_put_theta out]]))"

text \<open>The row written for one spot, read off the result of \<^verbatim>\<open>bs_call_put\<close>.\<close>

definition csv_row :: "real \<Rightarrow> real \<Rightarrow> csv_cell list" where
  "csv_row T S =
     (let out = projr (bs_call_put S K_input r_input sigma_input T)
      in map Num [S, bs_call out, bs_put out, bs_call_delta out, bs_put_delta out,
                  bs_gamma out, bs_vega out, bs_call_theta out, bs_put_theta out])"

definition sample_atm_csv :: "real \<Rightarrow> py_error + csv_cell list list" where
  "sample_atm_csv secs =
     csv_loop (T_ref secs) (linspace (S_center * 0.9) (S_center * 1.1) 21) [csv_header]"

section \<open>The protective put and fiduciary call charts (relationships/call_put_parity.py)\<close>

text \<open>A curve handed to \<^verbatim>\<open>plt.plot(x, y)\<close>: the abscissae and the ordinates.\<close>

type_synonym curve = "real list \<times> real list"

text \<open>
  The script from its parameters to its two \<^verbatim>\<open>plt.plot\<close> calls, one variable per
  assignment. The result lists the curves drawn, in the order of the figures.
\<close>

definition call_put_parity_plots :: "curve list" where
  "call_put_parity_plots =
     (let S0 = 100 :: real;
          K = 95 :: real;
          put_premium = 4 :: real;
          call_premium = 4 :: real;
          r = 0.05 :: real;
          T = 1 :: real;
          PV_K = K / exp (r * T);
          S_T = linspace 50 150 300;
          stock_payoff = map (\<lambda>s. s - S0) S_T;
          put_payoff = map (\<lambda>s. max (K - s) 0 - put_premium) S_T;
          protective_put_total = map2 (+) stock_payoff put_payoff;
          call_payoff = map (\<lambda>s. max (s - K) 0 - call_premium) S_T;
          bond_payoff = PV_K * exp (r * T) - PV_K;
          fiduciary_call_total = map (\<lambda>c. c + (K - K)) call_payoff
      in [(S_T, protective_put_total), (S_T, fiduciary_call_total)])"

text \<open>
  An edit of one assignment of the script: the line stays as written, its right-hand
  side is replaced by another value, or the line is deleted.
\<close>

datatype 'a edit = Unchanged | Altered 'a | Removed

text \<open>
  The same script with the assignments to \<^verbatim>\<open>bond_payoff\<close> and
  \<^verbatim>\<open>fiduciary_call_total\<close> open to an edit. A deleted line leaves its name unbound
  (\<open>None\<close>), and \<^verbatim>\<open>plt.plot\<close> raises when it is handed an unbound name.
\<close>

definition call_put_parity_edited :: "real edit \<Rightarrow> real list edit \<Rightarrow> py_error + curve list" where
  "call_put_parity_edited bond_edit fiduciary_edit =
     (let S0 = 100 :: real;
          K = 95 :: real;
          put_premium = 4 :: real;
          call_premium = 4 :: real;
          r = 0.05 :: real;
          T = 1 :: real;
          PV_K = K / exp (r * T);
          S_T = linspace 50 150 300;
          stock_payoff = map (\<lambda>s. s - S0) S_T;
          put_payoff = map (\<lambda>s. max (K - s) 0 - put_premium) S_T;
          protective_put_total = map2 (+) stock_payoff put_payoff;
          call_payoff = map (\<lambda>s. max (s - K) 0 - call_premium) S_T;
          bond_payoff =
            (case bond_edit of
               Unchanged \<Rightarrow> Some (PV_K * exp (r * T) - PV_K)
             | Altered v \<Rightarrow> Some v
             | Removed \<Rightarrow> None);
          fiduciary_call_total =
            (case fiduciary_edit of
               Unchanged \<Rightarrow> Some (map (\<lambda>c. c + (K - K)) call_payoff)
             | Altered v \<Rightarrow> Some v
             | Removed \<Rightarrow> None)
      in case fiduciary_call_total of
           None \<Rightarrow> Inl NameError
         | Some curve2 \<Rightarrow> Inr [(S_T, protective_put_total), (S_T, curve2)])"

section \<open>Auxiliary facts\<close>

subsection \<open>Errors and sequencing\<close>

lemma and_then_Inr [simp]: "and_then (Inr v) f = f v"
  by (simp add: and_then_def)

lemma and_then_Inl [simp]: "and_then (Inl e) f = Inl e"
  by (simp add: and_then_def)

lemma py_div_nonzero: "b \<noteq> 0 \<Longrightarrow> py_div a b = Inr (a / b)"
  by (simp add: py_div_def)

lemma ar_div_nonzero: "b \<noteq> 0 \<Longrightarrow> ar_div ar a b = Inr (ar_quot ar a b)"
  by (simp add: ar_div_def)

lemma ar_div_exact: "ar_div exact_arith a b = py_div a b"
  by (simp add: ar_div_def py_div_def exact_arith_def)

text \<open>Over exact arithmetic the second rendering of the worksheet function is the first.\<close>

lemma binomial_CPT_paper_in_exact:
  "binomial_CPT_paper_in exact_arith S0 K r T u d option = binomial_CPT_paper S0 K r T u d option"
  unfolding binomial_CPT_paper_in_def binomial_CPT_paper_def ar_div_exact
  by (simp add: exact_arith_def Let_def)

text \<open>Over exact arithmetic the three divisors are zero only for the inputs one expects.\<close>

lemma exact_divisors:
  "ar_sub exact_arith u d \<noteq> 0 \<longleftrightarrow> u \<noteq> d"
  "spec_R exact_arith r T \<noteq> 0 \<longleftrightarrow> 1 + r * T \<noteq> 0"
  "ar_sub exact_arith (ar_mul exact_arith S0 u) (ar_mul exact_arith S0 d) \<noteq> 0
     \<longleftrightarrow> S0 \<noteq> 0 \<and> u \<noteq> d"
  by (simp_all add: exact_arith_def spec_R_def right_diff_distrib [symmetric])

subsection \<open>The worksheet on doubles\<close>

lemma binary64_zero: "binary64 0 = 0"
  by (simp add: binary64_def)

text \<open>A number scaled into \<open>[2 ^ 52, 2 ^ 53)\<close> is rounded to the nearest integer there.\<close>

lemma binary64_scaled:
  fixes n :: nat
  assumes lo: "2 ^ 52 \<le> \<bar>x\<bar> * 2 ^ n" and hi: "\<bar>x\<bar> * 2 ^ n < 2 ^ 53" and n: "n \<le> 1074"
  shows "binary64 x = of_int (round_half_even (x * 2 ^ n)) / 2 ^ n"
proof -
  have x: "x \<noteq> 0" using lo by auto
  then have ax: "0 < \<bar>x\<bar>" by simp
  have p: "(2::real) ^ n = 2 powr real n" by (simp add: powr_realpow)
  have "2 powr (52 - real n) \<le> \<bar>x\<bar>"
    using lo by (simp add: p powr_diff field_simps)
  then have l1: "52 - real n \<le> log 2 \<bar>x\<bar>"
    using ax by (simp add: le_log_iff)
  have "\<bar>x\<bar> < 2 powr (53 - real n)"
    using hi by (simp add: p powr_diff field_simps)
  then have l2: "log 2 \<bar>x\<bar> < 53 - real n"
    using ax by (simp add: log_less_iff)
  have "\<lfloor>log 2 \<bar>x\<bar>\<rfloor> = 52 - int n"
    using l1 l2 by (intro floor_unique) simp_all
  moreover have "max (52 - int n) (- 1022) = 52 - int n"
    using n by simp
  moreover have "2 powr (real_of_int (52 - int n) - 52) = 1 / 2 ^ n"
    by (simp add: p powr_minus divide_simps)
  ultimately show ?thesis
    using x by (simp add: binary64_def Let_def)
qed

text \<open>The roundings met in the two runs below, one fact per operation.\<close>

lemma binary64_steps:
  "binary64 (1 / 20) = 3602879701896397 / 72057594037927936"
  "binary64 (6 / 5) = 5404319552844595 / 4503599627370496"
  "binary64 (4 / 5) = 3602879701896397 / 4503599627370496"
  "binary64 (135107988821114875 / 1125899906842624) = 120"
  "binary64 (90071992547409925 / 1125899906842624) = 80"
  "binary64 20 = 20"
  "binary64 (- 20) = - 20"
  "binary64 (3602879701896397 / 72057594037927936) = 3602879701896397 / 72057594037927936"
  "binary64 (75660473739824333 / 72057594037927936) = 4728779608739021 / 4503599627370496"
  "binary64 (1 / 4) = 1 / 4"
  "binary64 (900719925474099 / 2251799813685248) = 900719925474099 / 2251799813685248"
  "binary64 (562949953421312 / 900719925474099) = 5629499534213121 / 9007199254740992"
  "binary64 (63 / 100) = 5674535530486825 / 9007199254740992"
  "binary64 (28372677652434125 / 2251799813685248) = 7093169413108531 / 562949953421312"
  "binary64 (3332663724254167 / 9007199254740992) = 3332663724254167 / 9007199254740992"
  "binary64 (7093169413108531 / 562949953421312) = 7093169413108531 / 562949953421312"
  "binary64 (56745355304868248 / 4728779608739021) = 12"
  "binary64 12 = 12"
  "binary64 40 = 40"
  "binary64 (1 / 2) = 1 / 2"
  "binary64 50 = 50"
  "binary64 (- 38) = - 38"
  "binary64 (21 / 20) = 4728779608739021 / 4503599627370496"
  "binary64 (63 / 5) = 7093169413108531 / 562949953421312"
  "binary64 (13 / 20) = 5854679515581645 / 9007199254740992"
  "binary64 (118219490218475525 / 1125899906842624) = 105"
  "binary64 (146366987889541125 / 2251799813685248) = 65"
  "binary64 5 = 5"
  "binary64 (- 35) = - 35"
  "binary64 1 = 1"
  "binary64 (3152519739159347 / 9007199254740992) = 3152519739159347 / 9007199254740992"
  "binary64 (3602879701896397 / 9007199254740992) = 3602879701896397 / 9007199254740992"
  "binary64 (3152519739159347 / 3602879701896397) = 7881299347898367 / 9007199254740992"
  "binary64 (87 / 100) = 7836263351624663 / 9007199254740992"
  "binary64 (39181316758123315 / 9007199254740992) = 2448832297382707 / 562949953421312"
  "binary64 (1170935903116329 / 9007199254740992) = 1170935903116329 / 9007199254740992"
  "binary64 (2448832297382707 / 562949953421312) = 2448832297382707 / 562949953421312"
  "binary64 (87 / 20) = 2448832297382707 / 562949953421312"
  "binary64 (1 / 8) = 1 / 8"
  "binary64 (3 / 25) = 1080863910568919 / 9007199254740992"
  "binary64 (27021597764222975 / 2251799813685248) = 12"
  "binary64 (- (4306567143673037 / 562949953421312)) = - (4306567143673037 / 562949953421312)"
  "binary64 (- (153 / 20)) = - (4306567143673037 / 562949953421312)"
proof -
  show "binary64 (1 / 20) = 3602879701896397 / 72057594037927936"
    by (subst binary64_scaled [where n = 57]) (simp_all add: round_half_even_def Let_def)
  show "binary64 (6 / 5) = 5404319552844595 / 4503599627370496"
    by (subst binary64_scaled [where n = 52]) (simp_all add: round_half_even_def Let_def)
  show "binary64 (4 / 5) = 3602879701896397 / 4503599627370496"
    by (subst binary64_scaled [where n = 53]) (simp_all add: round_half_even_def Let_def)
  show "binary64 (135107988821114875 / 1125899906842624) = 120"
    by (subst binary64_scaled [where n = 46]) (simp_all add: round_half_even_def Let_def)
  show "binary64 (90071992547409925 / 1125899906842624) = 80"
    by (subst binary64_scaled [where n = 46]) (simp_all add: round_half_even_def Let_def)
  show "binary64 20 = 20"
    by (subst binary64_scaled [where n = 48]) (simp_all add: round_half_even_def Let_def)
  show "binary64 (- 20) = - 20"
    by (subst binary64_scaled [where n = 48]) (simp_all add: round_half_even_def Let_def)
  show "binary64 (3602879701896397 / 72057594037927936) = 3602879701896397 / 72057594037927936"
    by (subst binary64_scaled [where n = 57]) (simp_all add: round_half_even_def Let_def)
  show "binary64 (75660473739824333 / 72057594037927936) = 4728779608739021 / 4503599627370496"
    by (subst binary64_scaled [where n = 52]) (simp_all add: round_half_even_def Let_def)
  show "binary64 (1 / 4) = 1 / 4"
    by (subst binary64_scaled [where n = 54]) (simp_all add: round_half_even_def Let_def)
  show "binary64 (900719925474099 / 2251799813685248) = 900719925474099 / 2251799813685248"
    by (subst binary64_scaled [where n = 54]) (simp_all add: round_half_even_def Let_def)
  show "binary64 (562949953421312 / 900719925474099) = 5629499534213121 / 9007199254740992"
    by (subst binary64_scaled [where n = 53]) (simp_all add: round_half_even_def Let_def)
  show "binary64 (63 / 100) = 5674535530486825 / 9007199254740992"
    by (subst binary64_scaled [where n = 53]) (simp_all add: round_half_even_def Let_def)
  show "binary64 (28372677652434125 / 2251799813685248) = 7093169413108531 / 562949953421312"
    by (subst binary64_scaled [where n = 49]) (simp_all add: round_half_even_def Let_def)
  show "binary64 (3332663724254167 / 9007199254740992) = 3332663724254167 / 9007199254740992"
    by (subst binary64_scaled [where n = 54]) (simp_all add: round_half_even_def Let_def)
  show "binary64 (7093169413108531 / 562949953421312) = 7093169413108531 / 562949953421312"
    by (subst binary64_scaled [where n = 49]) (simp_all add: round_half_even_def Let_def)
  show "binary64 (56745355304868248 / 4728779608739021) = 12"
    by (subst binary64_scaled [where n = 49]) (simp_all add: round_half_even_def Let_def)
  show "binary64 12 = 12"
    by (subst binary64_scaled [where n = 49]) (simp_all add: round_half_even_def Let_def)
  show "binary64 40 = 40"
    by (subst binary64_scaled [where n = 47]) (simp_all add: round_half_even_def Let_def)
  show "binary64 (1 / 2) = 1 / 2"
    by (subst binary64_scaled [where n = 53]) (simp_all add: round_half_even_def Let_def)
  show "binary64 50 = 50"
    by (subst binary64_scaled [where n = 47]) (simp_all add: round_half_even_def Let_def)
  show "binary64 (- 38) = - 38"
    by (subst binary64_scaled [where n = 47]) (simp_all add: round_half_even_def Let_def)
  show "binary64 (21 / 20) = 4728779608739021 / 4503599627370496"
    by (subst binary64_scaled [where n = 52]) (simp_all add: round_half_even_def Let_def)
  show "binary64 (63 / 5) = 7093169413108531 / 562949953421312"
    by (subst binary64_scaled [where n = 49]) (simp_all add: round_half_even_def Let_def)
  show "binary64 (13 / 20) = 5854679515581645 / 9007199254740992"
    by (subst binary64_scaled [where n = 53]) (simp_all add: round_half_even_def Let_def)
  show "binary64 (118219490218475525 / 1125899906842624) = 105"
    by (subst binary64_scaled [where n = 46]) (simp_all add: round_half_even_def Let_def)
  show "binary64 (146366987889541125 / 2251799813685248) = 65"
    by (subst binary64_scaled [where n = 46]) (simp_all add: round_half_even_def Let_def)
  show "binary64 5 = 5"
    by (subst binary64_scaled [where n = 50]) (simp_all add: round_half_even_def Let_def)
  show "binary64 (- 35) = - 35"
    by (subst binary64_scaled [where n = 47]) (simp_all add: round_half_even_def Let_def)
  show "binary64 1 = 1"
    by (subst binary64_scaled [where n = 52]) (simp_all add: round_half_even_def Let_def)
  show "binary64 (3152519739159347 / 9007199254740992) = 3152519739159347 / 9007199254740992"
    by (subst binary64_scaled [where n = 54]) (simp_all add: round_half_even_def Let_def)
  show "binary64 (3602879701896397 / 9007199254740992) = 3602879701896397 / 9007199254740992"
    by (subst binary64_scaled [where n = 54]) (simp_all add: round_half_even_def Let_def)
  show "binary64 (3152519739159347 / 3602879701896397) = 7881299347898367 / 9007199254740992"
    by (subst binary64_scaled [where n = 53]) (simp_all add: round_half_even_def Let_def)
  show "binary64 (87 / 100) = 7836263351624663 / 9007199254740992"
    by (subst binary64_scaled [where n = 53]) (simp_all add: round_half_even_def Let_def)
  show "binary64 (39181316758123315 / 9007199254740992) = 2448832297382707 / 562949953421312"
    by (subst binary64_scaled [where n = 50]) (simp_all add: round_half_even_def Let_def)
  show "binary64 (1170935903116329 / 9007199254740992) = 1170935903116329 / 9007199254740992"
    by (subst binary64_scaled [where n = 55]) (simp_all add: round_half_even_def Let_def)
  show "binary64 (2448832297382707 / 562949953421312) = 2448832297382707 / 562949953421312"
    by (subst binary64_scaled [where n = 50]) (simp_all add: round_half_even_def Let_def)
  show "binary64 (87 / 20) = 2448832297382707 / 562949953421312"
    by (subst binary64_scaled [where n = 50]) (simp_all add: round_half_even_def Let_def)
  show "binary64 (1 / 8) = 1 / 8"
    by (subst binary64_scaled [where n = 55]) (simp_all add: round_half_even_def Let_def)
  show "binary64 (3 / 25) = 1080863910568919 / 9007199254740992"
    by (subst binary64_scaled [where n = 56]) (simp_all add: round_half_even_def Let_def)
  show "binary64 (27021597764222975 / 2251799813685248) = 12"
    by (subst binary64_scaled [where n = 49]) (simp_all add: round_half_even_def Let_def)
  show "binary64 (- (4306567143673037 / 562949953421312)) = - (4306567143673037 / 562949953421312)"
    by (subst binary64_scaled [where n = 50]) (simp_all add: round_half_even_def Let_def)
  show "binary64 (- (153 / 20)) = - (4306567143673037 / 562949953421312)"
    by (subst binary64_scaled [where n = 50]) (simp_all add: round_half_even_def Let_def)
qed

lemma py_round_steps:
  "py_round (5629499534213121 / 9007199254740992) 2 = 63 / 100"
  "py_round 12 2 = 12"
  "py_round (1 / 2) 2 = 1 / 2"
  "py_round (- 38) 2 = - 38"
  "py_round (7881299347898367 / 9007199254740992) 2 = 87 / 100"
  "py_round (2448832297382707 / 562949953421312) 2 = 87 / 20"
  "py_round (1 / 8) 2 = 3 / 25"
  "py_round (- (4306567143673037 / 562949953421312)) 2 = - (153 / 20)"
  by (simp_all add: py_round_def Let_def)

text \<open>
  At a decimal tie the two arithmetics part ways. On \<open>S0 = K = 100\<close>, \<open>r = 0.05\<close>,
  \<open>T = 1\<close>, \<open>u = 1.2\<close>, \<open>d = 0.8\<close> the exact quotient \<open>(R - d) / (u - d)\<close> is
  \<open>0.625\<close> and rounds to \<open>0.62\<close>; on doubles the quotient lies just above \<open>0.625\<close>
  and rounds to \<open>0.63\<close>, and price and bond position follow.
\<close>

lemma binomial_CPT_paper_at_tie_exact:
  "binomial_CPT_paper 100 100 0.05 1 1.2 0.8 ''call'' =
     Inr \<lparr>cpt_S0 = 100, cpt_Su = 120, cpt_Sd = 80, cpt_Cu = 20, cpt_Cd = 0,
          cpt_R = 1.05, cpt_p = 0.62, cpt_Expected_Payoff = 12.4,
          cpt_Delta = 0.5, cpt_Bond = - 38.19, cpt_Price = 11.81\<rparr>"
  by (simp add: binomial_CPT_paper_def py_div_def py_round_def Let_def)

lemma binomial_CPT_paper_at_tie_double:
  "binomial_CPT_paper_in double_arith 100 100 (binary64 0.05) 1 (binary64 1.2) (binary64 0.8)
     ''call'' =
     Inr \<lparr>cpt_S0 = 100, cpt_Su = 120, cpt_Sd = 80, cpt_Cu = 20, cpt_Cd = 0,
          cpt_R = binary64 1.05, cpt_p = binary64 0.63, cpt_Expected_Payoff = binary64 12.6,
          cpt_Delta = 0.5, cpt_Bond = - 38, cpt_Price = 12\<rparr>"
  by (simp add: binomial_CPT_paper_in_def double_arith_def ar_div_def Let_def
        binary64_steps py_round_steps binary64_zero)

text \<open>
  On \<open>S0 = K = 100\<close>, \<open>r = 0\<close>, \<open>T = 0.25\<close>, \<open>u = 1.05\<close>, \<open>d = 0.65\<close> the products
  \<open>S0 u\<close> and \<open>S0 d\<close> round to \<open>105\<close> and \<open>65\<close> on doubles, the hedge ratio is the
  tie \<open>0.125\<close> and rounds to \<open>0.12\<close>.
\<close>

lemma binomial_CPT_paper_quarter_double:
  "binomial_CPT_paper_in double_arith 100 100 0 (binary64 0.25) (binary64 1.05) (binary64 0.65)
     ''call'' =
     Inr \<lparr>cpt_S0 = 100, cpt_Su = 105, cpt_Sd = 65, cpt_Cu = 5, cpt_Cd = 0,
          cpt_R = 1, cpt_p = binary64 0.87, cpt_Expected_Payoff = binary64 4.35,
          cpt_Delta = binary64 0.12, cpt_Bond = binary64 (- 7.65),
          cpt_Price = binary64 4.35\<rparr>"
  by (simp add: binomial_CPT_paper_in_def double_arith_def ar_div_def Let_def
        binary64_steps py_round_steps binary64_zero)

subsection \<open>The normal distribution function is symmetric\<close>

lemma erf_term_bound: "norm (erf_term x k) \<le> \<bar>x\<bar> * (inverse (fact k) * (x\<^sup>2) ^ k)"
proof -
  have "norm (erf_term x k) = \<bar>x\<bar> * (inverse (fact k) * (x\<^sup>2) ^ k) / real (2 * k + 1)"
    by (simp add: erf_term_def power_mult abs_mult power_abs divide_simps)
  also have "\<dots> \<le> \<bar>x\<bar> * (inverse (fact k) * (x\<^sup>2) ^ k) / 1"
    by (rule divide_left_mono) simp_all
  finally show ?thesis by simp
qed

lemma summable_erf_term: "summable (erf_term x)"
proof (rule summable_norm_cancel, rule summable_comparison_test')
  show "summable (\<lambda>k. \<bar>x\<bar> * (inverse (fact k) * (x\<^sup>2) ^ k))"
    by (intro summable_mult summable_exp)
  show "norm (norm (erf_term x k)) \<le> \<bar>x\<bar> * (inverse (fact k) * (x\<^sup>2) ^ k)" for k
    using erf_term_bound [of x k] by simp
qed

lemma erf_term_minus: "erf_term (- x) k = - erf_term x k"
  by (simp add: erf_term_def)

lemma erf_minus: "erf (- x) = - erf x"
  by (simp add: erf_def erf_term_minus suminf_minus [OF summable_erf_term])

lemma norm_cdf_minus: "norm_cdf (- x) = 1 - norm_cdf x"
  by (simp add: norm_cdf_def erf_minus field_simps)

subsection \<open>Sample grids\<close>

lemma length_linspace: "length (linspace a b n) = n"
  by (simp add: linspace_def)

lemma nth_linspace:
  "i < n \<Longrightarrow> linspace a b n ! i = a + real i * ((b - a) / real (n - 1))"
  by (auto simp add: linspace_def)

lemma length_r_range: "length r_range = 200"
  by (simp add: r_range_def length_linspace)

lemma spot_sweep_nth:
  "i < 21 \<Longrightarrow> linspace (S_center * 0.9) (S_center * 1.1) 21 ! i = 73800 + 820 * real i"
  by (simp add: nth_linspace S_center_def)

lemma spot_sweep_pos:
  assumes "S \<in> set (linspace (S_center * 0.9) (S_center * 1.1) 21)"
  shows "0 < S"
proof -
  from assms obtain i where "i < 21" "S = linspace (S_center * 0.9) (S_center * 1.1) 21 ! i"
    by (auto simp add: in_set_conv_nth length_linspace)
  then have "S = 73800 + 820 * real i" by (simp only: spot_sweep_nth)
  then show ?thesis by simp
qed

subsection \<open>When the pricing function returns\<close>

lemma bs_call_put_closed_form:
  assumes "0 < S" "0 < K" "sigma \<noteq> 0" "0 < T"
  shows "bs_call_put S K r sigma T =
     Inr \<lparr>bs_call = S * norm_cdf (spec_d1 S K r sigma T)
                      - K * exp (- r * T) * norm_cdf (spec_d2 S K r sigma T),
          bs_put = K * exp (- r * T) * norm_cdf (- spec_d2 S K r sigma T)
                     - S * norm_cdf (- spec_d1 S K r sigma T),
          bs_call_delta = norm_cdf (spec_d1 S K r sigma T),
          bs_put_delta = norm_cdf (spec_d1 S K r sigma T) - 1,
          bs_gamma = norm_pdf (spec_d1 S K r sigma T) / (S * sigma * sqrt T),
          bs_vega = S * norm_pdf (spec_d1 S K r sigma T) * sqrt T,
          bs_call_theta =
            ((- S * norm_pdf (spec_d1 S K r sigma T) * sigma) / (2 * sqrt T)
             - r * K * exp (- r * T) * norm_cdf (spec_d2 S K r sigma T)) / 365,
          bs_put_theta =
            ((- S * norm_pdf (spec_d1 S K r sigma T) * sigma) / (2 * sqrt T)
             + r * K * exp (- r * T) * norm_cdf (- spec_d2 S K r sigma T)) / 365\<rparr>"
proof -
  have a: "py_div S K = Inr (S / K)" using assms by (simp add: py_div_def)
  have "0 < S / K" using assms by simp
  then have b: "py_log (S / K) = Inr (ln (S / K))" by (simp add: py_log_def)
  have c: "sigma * sqrt T \<noteq> 0" "S * sigma * sqrt T \<noteq> 0" "2 * sqrt T \<noteq> 0"
    using assms by simp_all
  show ?thesis using assms(4)
    by (simp add: bs_call_put_def a b py_div_nonzero [OF c(1)] py_div_nonzero [OF c(2)]
          py_div_nonzero [OF c(3)] Let_def spec_d1_def spec_d2_def)
qed

lemma bs_call_put_projr:
  assumes "0 < S" "0 < K" "sigma \<noteq> 0" "0 < T"
  shows "bs_call_put S K r sigma T = Inr (projr (bs_call_put S K r sigma T))"
  by (simp add: bs_call_put_closed_form [OF assms])

lemma T_ref_pos: "0 < T_ref secs"
  by (simp add: T_ref_def max_def)

lemma S_center_pos: "0 < S_center"
  by (simp add: S_center_def)

lemma dashboard_bs_projr:
  "0 < T \<Longrightarrow> 0 < S \<Longrightarrow>
   bs_call_put S K_input rate sigma_input T = Inr (projr (bs_call_put S K_input rate sigma_input T))"
  by (rule bs_call_put_projr) (simp_all add: K_input_def sigma_input_def)

subsection \<open>The rho loop\<close>

lemma rho_loop_step:
  assumes "0 < T"
  shows "rho_loop T ((i, rr) # rest) (ca, pa) =
           rho_loop T rest (ca[i := rho_call_at T rr], pa[i := rho_put_at T rr])"
proof -
  have up: "bs_call_put S_center K_input (rr + eps) sigma_input T
              = Inr (projr (bs_call_put S_center K_input (rr + eps) sigma_input T))"
    by (rule dashboard_bs_projr [OF assms S_center_pos])
  have dn: "bs_call_put S_center K_input (rr - eps) sigma_input T
              = Inr (projr (bs_call_put S_center K_input (rr - eps) sigma_input T))"
    by (rule dashboard_bs_projr [OF assms S_center_pos])
  show ?thesis
    unfolding rho_loop.simps rho_call_at_def rho_put_at_def
    by (subst up, subst dn) simp
qed

lemma rho_loop_result:
  assumes "0 < T"
  shows "k + length xs \<le> length ca \<Longrightarrow> k + length xs \<le> length pa \<Longrightarrow>
         rho_loop T (enumerate k xs) (ca, pa) =
           Inr (take k ca @ map (rho_call_at T) xs @ drop (k + length xs) ca,
                take k pa @ map (rho_put_at T) xs @ drop (k + length xs) pa)"
proof (induction xs arbitrary: k ca pa)
  case Nil
  then show ?case by simp
next
  case (Cons rr xs)
  have k: "k < length ca" "k < length pa" using Cons.prems by simp_all
  have "rho_loop T (enumerate k (rr # xs)) (ca, pa) =
          rho_loop T (enumerate (Suc k) xs) (ca[k := rho_call_at T rr], pa[k := rho_put_at T rr])"
    by (simp only: enumerate_simps rho_loop_step [OF assms])
  also have "\<dots> = Inr (take (Suc k) (ca[k := rho_call_at T rr]) @ map (rho_call_at T) xs
                         @ drop (Suc k + length xs) (ca[k := rho_call_at T rr]),
                       take (Suc k) (pa[k := rho_put_at T rr]) @ map (rho_put_at T) xs
                         @ drop (Suc k + length xs) (pa[k := rho_put_at T rr]))"
    using Cons.prems by (intro Cons.IH) simp_all
  finally show ?case using k
    by (simp add: take_Suc_conv_app_nth)
qed

lemma rho_arrays_eq:
  "rho_arrays secs =
     Inr (map (rho_call_at (T_ref secs)) r_range, map (rho_put_at (T_ref secs)) r_range)"
  unfolding rho_arrays_def
  by (subst rho_loop_result [OF T_ref_pos]) (simp_all add: empty_like_def)

subsection \<open>The CSV loop\<close>

lemma csv_loop_result:
  assumes "0 < T"
  shows "(\<And>S. S \<in> set Ss \<Longrightarrow> 0 < S) \<Longrightarrow>
         csv_loop T Ss written = Inr (written @ map (csv_row T) Ss)"
proof (induction Ss arbitrary: written)
  case Nil
  then show ?case by simp
next
  case (Cons S Ss)
  have "0 < S" using Cons.prems by simp
  then have out: "bs_call_put S K_input r_input sigma_input T
                    = Inr (projr (bs_call_put S K_input r_input sigma_input T))"
    by (rule dashboard_bs_projr [OF assms])
  have "csv_loop T (S # Ss) written = csv_loop T Ss (written @ [csv_row T S])"
    unfolding csv_loop.simps csv_row_def by (subst out) (simp add: Let_def)
  also have "\<dots> = Inr ((written @ [csv_row T S]) @ map (csv_row T) Ss)"
    using Cons.prems by (intro Cons.IH) simp
  finally show ?case by simp
qed

lemma sample_atm_csv_eq:
  "sample_atm_csv secs =
     Inr (csv_header # map (csv_row (T_ref secs)) (linspace (S_center * 0.9) (S_center * 1.1) 21))"
  unfolding sample_atm_csv_def
  by (subst csv_loop_result [OF T_ref_pos]) (simp_all add: spot_sweep_pos)

subsection \<open>The parity script\<close>

lemma S_T_first: "linspace 50 150 300 ! 0 = 50"
  by (simp add: nth_linspace)

section \<open>The binomial worksheet: claims\<close>

text \<open>
  C1 (as amended). For every input on which none of the three divisors that the function
  computes is zero (\<open>u - d\<close>, the growth factor \<open>R = 1 + r T\<close> and \<open>Su - Sd\<close>; over
  exact numbers: \<open>u \<noteq> d\<close>, \<open>1 + r T \<noteq> 0\<close> and \<open>S0 \<noteq> 0\<close>),
  \<^verbatim>\<open>binomial_CPT_paper\<close> returns, and what it returns is the worksheet of the
  specification, step by step in this order: \<open>Su = S0 u\<close>, \<open>Sd = S0 d\<close>; the payoffs
  \<open>max (S - K) 0\<close> for a call and \<open>max (K - S) 0\<close> for a put; \<open>R = 1 + r T\<close>; the
  probability \<open>(R - d) / (u - d)\<close> rounded to two decimals before the expected payoff is
  formed; the price the expected payoff divided once by \<open>R\<close>, then rounded; the hedge
  ratio and the bond position rounded likewise. Nothing else is rounded to decimals. This
  holds whatever arithmetic carries out the single operations, that of doubles included:
  the order of the steps is fixed, not the rounding error of a step.
\<close>

theorem binomial_CPT_paper_worksheet:
  assumes "ar_sub ar u d \<noteq> 0"
    and "spec_R ar r T \<noteq> 0"
    and "ar_sub ar (ar_mul ar S0 u) (ar_mul ar S0 d) \<noteq> 0"
  shows "binomial_CPT_paper_in ar S0 K r T u d option =
     Inr \<lparr>cpt_S0 = S0, cpt_Su = ar_mul ar S0 u, cpt_Sd = ar_mul ar S0 d,
          cpt_Cu = spec_payoff ar option (ar_mul ar S0 u) K,
          cpt_Cd = spec_payoff ar option (ar_mul ar S0 d) K,
          cpt_R = spec_R ar r T,
          cpt_p = spec_p ar r T u d,
          cpt_Expected_Payoff = spec_expected ar S0 K r T u d option,
          cpt_Delta = spec_delta ar S0 K u d option,
          cpt_Bond = spec_bond ar S0 K r T u d option,
          cpt_Price = spec_price ar S0 K r T u d option\<rparr>"
proof -
  have R: "ar_add ar 1 (ar_mul ar r T) \<noteq> 0"
    using assms(2) by (simp add: spec_R_def)
  show ?thesis
    unfolding binomial_CPT_paper_in_def Let_def
      ar_div_nonzero [OF assms(1)] ar_div_nonzero [OF R] ar_div_nonzero [OF assms(3)]
      and_then_Inr
    by (simp add: spec_payoff_def spec_R_def spec_p_def spec_expected_def spec_delta_def
          spec_bond_def spec_price_def)
qed

theorem binomial_CPT_paper_worksheet_witness:
  "(16 / 10 :: real) \<noteq> 7 / 10 \<and> (100 :: real) \<noteq> 0 \<and> 1 + (5 / 100 :: real) * 1 \<noteq> 0
   \<and> (\<exists>w. binomial_CPT_paper 100 110 (5 / 100) 1 (16 / 10) (7 / 10) ''call'' = Inr w
          \<and> cpt_p w = spec_p exact_arith (5 / 100) 1 (16 / 10) (7 / 10)
          \<and> cpt_p w = 39 / 100
          \<and> cpt_Price w = spec_price exact_arith 100 110 (5 / 100) 1 (16 / 10) (7 / 10) ''call''
          \<and> cpt_Price w = 1857 / 100)"
proof -
  have a: "ar_sub exact_arith (16 / 10) (7 / 10) \<noteq> 0"
    using exact_divisors(1) [of "16 / 10" "7 / 10"] by simp
  have b: "spec_R exact_arith (5 / 100) 1 \<noteq> 0"
    using exact_divisors(2) [of "5 / 100" 1] by simp
  have c: "ar_sub exact_arith (ar_mul exact_arith 100 (16 / 10)) (ar_mul exact_arith 100 (7 / 10))
             \<noteq> 0"
    using exact_divisors(3) [of 100 "16 / 10" "7 / 10"] by simp
  have p: "spec_p exact_arith (5 / 100) 1 (16 / 10) (7 / 10) = 39 / 100"
    by (simp add: spec_p_def spec_R_def exact_arith_def py_round_def Let_def)
  have e: "spec_expected exact_arith 100 110 (5 / 100) 1 (16 / 10) (7 / 10) ''call'' = 195 / 10"
    unfolding spec_expected_def p by (simp add: spec_payoff_def exact_arith_def)
  have q: "spec_price exact_arith 100 110 (5 / 100) 1 (16 / 10) (7 / 10) ''call'' = 1857 / 100"
    unfolding spec_price_def e by (simp add: spec_R_def exact_arith_def py_round_def Let_def)
  from binomial_CPT_paper_worksheet [OF a b c, of 110 "''call''"] p q
  show ?thesis
    unfolding binomial_CPT_paper_in_exact by simp
qed

text \<open>
  C1 as it is written asks only for \<open>u \<noteq> d\<close> and \<open>S0 \<noteq> 0\<close>. With \<open>r = -1\<close> and
  \<open>T = 1\<close> the growth factor is zero (exactly, also on doubles) and the discounting
  step raises: no price is returned.
\<close>

theorem binomial_CPT_paper_zero_growth:
  "(16 / 10 :: real) \<noteq> 7 / 10 \<and> (100 :: real) \<noteq> 0
   \<and> binomial_CPT_paper 100 110 (- 1) 1 (16 / 10) (7 / 10) ''call'' = Inl ZeroDivisionError"
  by (simp add: binomial_CPT_paper_def py_div_def py_round_def Let_def)

text \<open>
  C2. On \<open>S0 = 100\<close>, \<open>K = 110\<close>, \<open>r = 0.05\<close>, \<open>T = 1\<close>, \<open>u = 1.6\<close>, \<open>d = 0.7\<close> the call
  worksheet has \<open>p = 0.39\<close>, \<open>Cu = 50\<close>, \<open>Cd = 0\<close>, price \<open>18.57\<close>, delta \<open>0.56\<close> and bond
  \<open>-37.43\<close>; the put worksheet has \<open>Cu = 0\<close>, \<open>Cd = 40\<close> and price \<open>23.24\<close>.
\<close>

theorem binomial_CPT_paper_example:
  "binomial_CPT_paper 100 110 0.05 1 1.6 0.7 ''call'' =
     Inr \<lparr>cpt_S0 = 100, cpt_Su = 160, cpt_Sd = 70, cpt_Cu = 50, cpt_Cd = 0,
          cpt_R = 1.05, cpt_p = 0.39, cpt_Expected_Payoff = 19.5,
          cpt_Delta = 0.56, cpt_Bond = - 37.43, cpt_Price = 18.57\<rparr>
   \<and> binomial_CPT_paper 100 110 0.05 1 1.6 0.7 ''put'' =
     Inr \<lparr>cpt_S0 = 100, cpt_Su = 160, cpt_Sd = 70, cpt_Cu = 0, cpt_Cd = 40,
          cpt_R = 1.05, cpt_p = 0.39, cpt_Expected_Payoff = 24.4,
          cpt_Delta = - 0.44, cpt_Bond = 67.24, cpt_Price = 23.24\<rparr>"
  by (simp add: binomial_CPT_paper_def py_div_def py_round_def Let_def)

text \<open>
  C7. When \<open>u = d\<close> the function raises the division error of its first division, and
  nothing in it handles the error: the error is its result.
\<close>

theorem binomial_CPT_paper_equal_factors:
  "u = d \<Longrightarrow> binomial_CPT_paper S0 K r T u d option = Inl ZeroDivisionError"
  by (simp add: binomial_CPT_paper_def py_div_def Let_def)

theorem binomial_CPT_paper_equal_factors_witness:
  "(12 / 10 :: real) = 12 / 10
   \<and> binomial_CPT_paper 100 110 (5 / 100) 1 (12 / 10) (12 / 10) ''put'' = Inl ZeroDivisionError"
  using binomial_CPT_paper_equal_factors [of "12 / 10" "12 / 10" 100 110 "5 / 100" 1 "''put''"]
  by simp

text \<open>
  C10. \<open>u \<noteq> d\<close> alone does not make the function return: with \<open>S0 = 0\<close> it raises the
  division error whatever \<open>u\<close> and \<open>d\<close> are, and whenever it does return,
  \<open>S0 (u - d) \<noteq> 0\<close>.
\<close>

theorem binomial_CPT_paper_zero_spot:
  "binomial_CPT_paper 0 K r T u d option = Inl ZeroDivisionError
   \<and> (binomial_CPT_paper S0 K r T u d option = Inr w \<longrightarrow> S0 * (u - d) \<noteq> 0)"
proof
  show "binomial_CPT_paper 0 K r T u d option = Inl ZeroDivisionError"
    by (simp add: binomial_CPT_paper_def py_div_def Let_def and_then_def)
next
  show "binomial_CPT_paper S0 K r T u d option = Inr w \<longrightarrow> S0 * (u - d) \<noteq> 0"
    by (auto simp add: binomial_CPT_paper_def py_div_def Let_def and_then_def
          split: if_splits)
qed

theorem binomial_CPT_paper_zero_spot_witness:
  "binomial_CPT_paper 0 110 (5 / 100) 1 (16 / 10) (7 / 10) ''call'' = Inl ZeroDivisionError
   \<and> (\<exists>w. binomial_CPT_paper 100 110 (5 / 100) 1 (16 / 10) (7 / 10) ''call'' = Inr w)
   \<and> (100 :: real) * (16 / 10 - 7 / 10) \<noteq> 0"
proof -
  obtain w where w: "binomial_CPT_paper 100 110 (5 / 100) 1 (16 / 10) (7 / 10) ''call'' = Inr w"
    by (simp add: binomial_CPT_paper_def py_div_def py_round_def Let_def)
  from binomial_CPT_paper_zero_spot
         [of 110 "5 / 100" 1 "16 / 10" "7 / 10" "''call''" 100 w] w
  show ?thesis by blast
qed

section \<open>Black-Scholes pricing: claims\<close>

text \<open>
  C3. For every input with \<open>T \<le> 0\<close>, \<^verbatim>\<open>bs_call_put\<close> returns the intrinsic values
  \<open>max (S - K) 0\<close> and \<open>max (K - S) 0\<close>, the call delta \<open>1\<close> if \<open>S > K\<close> and \<open>0\<close>
  otherwise (so \<open>0\<close> at \<open>S = K\<close>), the put delta one less, and gamma, vega and both
  thetas zero.
\<close>

theorem bs_call_put_expired:
  "T \<le> 0 \<Longrightarrow>
   bs_call_put S K r sigma T =
     Inr \<lparr>bs_call = max (S - K) 0, bs_put = max (K - S) 0,
          bs_call_delta = (if S > K then 1 else 0),
          bs_put_delta = (if S > K then 1 else 0) - 1,
          bs_gamma = 0, bs_vega = 0, bs_call_theta = 0, bs_put_theta = 0\<rparr>"
  by (simp add: bs_call_put_def Let_def)

theorem bs_call_put_expired_witness:
  "(0 :: real) \<le> 0
   \<and> bs_call_put 100 100 (5 / 100) (1 / 2) 0 =
       Inr \<lparr>bs_call = 0, bs_put = 0, bs_call_delta = 0, bs_put_delta = - 1,
            bs_gamma = 0, bs_vega = 0, bs_call_theta = 0, bs_put_theta = 0\<rparr>
   \<and> bs_call_put 120 100 (5 / 100) (1 / 2) (- 1) =
       Inr \<lparr>bs_call = 20, bs_put = 0, bs_call_delta = 1, bs_put_delta = 0,
            bs_gamma = 0, bs_vega = 0, bs_call_theta = 0, bs_put_theta = 0\<rparr>"
  using bs_call_put_expired [of 0 100 100 "5 / 100" "1 / 2"]
        bs_call_put_expired [of "- 1" 120 100 "5 / 100" "1 / 2"]
  by simp

text \<open>
  C4. Whenever \<^verbatim>\<open>bs_call_put\<close> returns, in either branch, the call delta minus the put
  delta is \<open>1\<close>.
\<close>

theorem bs_call_put_delta_gap:
  "bs_call_put S K r sigma T = Inr out \<Longrightarrow> bs_call_delta out - bs_put_delta out = 1"
  by (auto simp add: bs_call_put_def Let_def and_then_def split: if_splits sum.splits)

theorem bs_call_put_delta_gap_witness:
  "(\<exists>out. bs_call_put 100 100 (5 / 100) (1 / 2) 0 = Inr out
          \<and> bs_call_delta out - bs_put_delta out = 1)
   \<and> (\<exists>out. bs_call_put 82000 93800 (5 / 100) (1 / 2) 1 = Inr out
          \<and> bs_call_delta out - bs_put_delta out = 1)"
proof
  obtain a where a: "bs_call_put 100 100 (5 / 100) (1 / 2) 0 = Inr a"
    by (simp add: bs_call_put_def Let_def)
  from bs_call_put_delta_gap [OF a] a
  show "\<exists>out. bs_call_put 100 100 (5 / 100) (1 / 2) 0 = Inr out
          \<and> bs_call_delta out - bs_put_delta out = 1"
    by blast
next
  obtain b where b: "bs_call_put 82000 93800 (5 / 100) (1 / 2) 1 = Inr b"
    using bs_call_put_projr [of 82000 93800 "1 / 2" 1 "5 / 100"] by simp
  from bs_call_put_delta_gap [OF b] b
  show "\<exists>out. bs_call_put 82000 93800 (5 / 100) (1 / 2) 1 = Inr out
          \<and> bs_call_delta out - bs_put_delta out = 1"
    by blast
qed

text \<open>
  C5. Put-call parity: for \<open>S\<close>, \<open>K\<close>, \<open>r\<close>, \<open>sigma\<close>, \<open>T\<close> all positive the function
  returns, and call minus put is \<open>S - K exp (- r T)\<close>, an equation over the reals.
\<close>

theorem bs_call_put_parity:
  assumes "0 < S" and "0 < K" and "0 < r" and "0 < sigma" and "0 < T"
  shows "\<exists>out. bs_call_put S K r sigma T = Inr out
           \<and> bs_call out - bs_put out = S - K * exp (- r * T)"
proof -
  have "sigma \<noteq> 0" using assms(4) by simp
  note cf = bs_call_put_closed_form [OF assms(1,2) this assms(5), of r]
  have "S * norm_cdf (spec_d1 S K r sigma T)
          - K * exp (- r * T) * norm_cdf (spec_d2 S K r sigma T)
        - (K * exp (- r * T) * norm_cdf (- spec_d2 S K r sigma T)
          - S * norm_cdf (- spec_d1 S K r sigma T))
        = S - K * exp (- r * T)"
    unfolding norm_cdf_minus by (simp add: algebra_simps)
  then show ?thesis unfolding cf by simp
qed

theorem bs_call_put_parity_witness:
  "(0 :: real) < 82000 \<and> (0 :: real) < 93800 \<and> (0 :: real) < 5 / 100 \<and> (0 :: real) < 1 / 2
   \<and> (0 :: real) < 1
   \<and> (\<exists>out. bs_call_put 82000 93800 (5 / 100) (1 / 2) 1 = Inr out
          \<and> bs_call out - bs_put out = 82000 - 93800 * exp (- (5 / 100) * 1))"
  using bs_call_put_parity [of 82000 93800 "5 / 100" "1 / 2" 1] by simp

section \<open>The dashboard: claims\<close>

text \<open>
  C6. Whatever the clock says, the rho loop returns two arrays of 200 entries, and for
  each rate \<open>rr\<close> of the sweep the call and put entries are the centered differences
  \<open>(price (rr + eps) - price (rr - eps)) / (2 eps)\<close> of the prices that
  \<^verbatim>\<open>bs_call_put\<close> returns, with \<open>eps = 1e-5\<close> on the rate and every other argument
  unchanged. No closed formula for rho enters.
\<close>

theorem rho_arrays_centered_difference:
  "\<exists>call_rho_arr put_rho_arr.
     rho_arrays secs = Inr (call_rho_arr, put_rho_arr)
     \<and> length call_rho_arr = 200 \<and> length put_rho_arr = 200
     \<and> eps = 1 / 100000
     \<and> (\<forall>i<200. \<exists>up dn.
           bs_call_put S_center K_input (r_range ! i + eps) sigma_input (T_ref secs) = Inr up
         \<and> bs_call_put S_center K_input (r_range ! i - eps) sigma_input (T_ref secs) = Inr dn
         \<and> call_rho_arr ! i = (bs_call up - bs_call dn) / (2 * eps)
         \<and> put_rho_arr ! i = (bs_put up - bs_put dn) / (2 * eps))"
proof (intro exI conjI allI impI)
  show "rho_arrays secs =
          Inr (map (rho_call_at (T_ref secs)) r_range, map (rho_put_at (T_ref secs)) r_range)"
    by (rule rho_arrays_eq)
  show "length (map (rho_call_at (T_ref secs)) r_range) = 200"
    by (simp add: length_r_range)
  show "length (map (rho_put_at (T_ref secs)) r_range) = 200"
    by (simp add: length_r_range)
  show "eps = 1 / 100000"
    by (simp add: eps_def)
next
  fix i :: nat
  assume i: "i < 200"
  show "bs_call_put S_center K_input (r_range ! i + eps) sigma_input (T_ref secs) =
          Inr (projr (bs_call_put S_center K_input (r_range ! i + eps) sigma_input (T_ref secs)))"
    by (rule dashboard_bs_projr [OF T_ref_pos S_center_pos])
  show "bs_call_put S_center K_input (r_range ! i - eps) sigma_input (T_ref secs) =
          Inr (projr (bs_call_put S_center K_input (r_range ! i - eps) sigma_input (T_ref secs)))"
    by (rule dashboard_bs_projr [OF T_ref_pos S_center_pos])
  show "map (rho_call_at (T_ref secs)) r_range ! i =
          (bs_call (projr (bs_call_put S_center K_input (r_range ! i + eps) sigma_input
                             (T_ref secs)))
           - bs_call (projr (bs_call_put S_center K_input (r_range ! i - eps) sigma_input
                               (T_ref secs))))
          / (2 * eps)"
    using i by (simp add: length_r_range rho_call_at_def)
  show "map (rho_put_at (T_ref secs)) r_range ! i =
          (bs_put (projr (bs_call_put S_center K_input (r_range ! i + eps) sigma_input
                            (T_ref secs)))
           - bs_put (projr (bs_call_put S_center K_input (r_range ! i - eps) sigma_input
                              (T_ref secs))))
          / (2 * eps)"
    using i by (simp add: length_r_range rho_put_at_def)
qed

theorem rho_arrays_centered_difference_witness:
  "\<exists>call_rho_arr put_rho_arr up dn.
     rho_arrays 86400 = Inr (call_rho_arr, put_rho_arr)
     \<and> (0 :: nat) < 200
     \<and> bs_call_put S_center K_input (r_range ! 0 + eps) sigma_input (T_ref 86400) = Inr up
     \<and> bs_call_put S_center K_input (r_range ! 0 - eps) sigma_input (T_ref 86400) = Inr dn
     \<and> call_rho_arr ! 0 = (bs_call up - bs_call dn) / (2 * eps)
     \<and> put_rho_arr ! 0 = (bs_put up - bs_put dn) / (2 * eps)"
proof -
  have "(0 :: nat) < 200" by simp
  with rho_arrays_centered_difference [of 86400] show ?thesis by blast
qed

text \<open>
  C8. Whatever the clock says, the CSV is the header row \<open>S, CallPrice, PutPrice,
  CallDelta, PutDelta, Gamma, Vega, CallTheta_per_day, PutTheta_per_day\<close> followed by
  exactly 21 rows. Row \<open>i\<close> belongs to the \<open>i\<close>-th sample of
  \<^verbatim>\<open>np.linspace(S_center*0.9, S_center*1.1, 21)\<close>, which is \<open>73800 + 820 i\<close> (from 10
  percent below the center to 10 percent above it, in equal steps), and holds that spot
  followed by the eight values \<^verbatim>\<open>bs_call_put\<close> returns for it.
\<close>

theorem sample_atm_csv_layout:
  "\<exists>rows.
     sample_atm_csv secs =
       Inr (map Title [''S'', ''CallPrice'', ''PutPrice'', ''CallDelta'', ''PutDelta'',
                       ''Gamma'', ''Vega'', ''CallTheta_per_day'', ''PutTheta_per_day'']
            # rows)
     \<and> length rows = 21
     \<and> (\<forall>i<21. \<exists>S out.
           S = linspace (S_center * 0.9) (S_center * 1.1) 21 ! i
         \<and> S = S_center * 0.9 + real i * (S_center * 1.1 - S_center * 0.9) / 20
         \<and> S = 73800 + 820 * real i
         \<and> bs_call_put S K_input r_input sigma_input (T_ref secs) = Inr out
         \<and> rows ! i = map Num [S, bs_call out, bs_put out, bs_call_delta out,
                                bs_put_delta out, bs_gamma out, bs_vega out,
                                bs_call_theta out, bs_put_theta out])"
proof (intro exI conjI allI impI)
  show "sample_atm_csv secs =
          Inr (map Title [''S'', ''CallPrice'', ''PutPrice'', ''CallDelta'', ''PutDelta'',
                          ''Gamma'', ''Vega'', ''CallTheta_per_day'', ''PutTheta_per_day'']
               # map (csv_row (T_ref secs)) (linspace (S_center * 0.9) (S_center * 1.1) 21))"
    unfolding sample_atm_csv_eq csv_header_def by (rule refl)
  show "length (map (csv_row (T_ref secs)) (linspace (S_center * 0.9) (S_center * 1.1) 21)) = 21"
    by (simp only: length_map length_linspace)
next
  fix i :: nat
  assume i: "i < 21"
  show "linspace (S_center * 0.9) (S_center * 1.1) 21 ! i
          = linspace (S_center * 0.9) (S_center * 1.1) 21 ! i"
    by (rule refl)
  have s: "linspace (S_center * 0.9) (S_center * 1.1) 21 ! i = 73800 + 820 * real i"
    using i by (rule spot_sweep_nth)
  show "linspace (S_center * 0.9) (S_center * 1.1) 21 ! i = 73800 + 820 * real i"
    by (rule s)
  show "linspace (S_center * 0.9) (S_center * 1.1) 21 ! i
          = S_center * 0.9 + real i * (S_center * 1.1 - S_center * 0.9) / 20"
    unfolding s by (simp add: S_center_def)
  have pos: "0 < linspace (S_center * 0.9) (S_center * 1.1) 21 ! i"
    unfolding s by simp
  have out: "bs_call_put (linspace (S_center * 0.9) (S_center * 1.1) 21 ! i)
               K_input r_input sigma_input (T_ref secs)
             = Inr (projr (bs_call_put (linspace (S_center * 0.9) (S_center * 1.1) 21 ! i)
                             K_input r_input sigma_input (T_ref secs)))"
    by (rule dashboard_bs_projr [OF T_ref_pos pos])
  show "bs_call_put (linspace (S_center * 0.9) (S_center * 1.1) 21 ! i)
               K_input r_input sigma_input (T_ref secs)
             = Inr (projr (bs_call_put (linspace (S_center * 0.9) (S_center * 1.1) 21 ! i)
                             K_input r_input sigma_input (T_ref secs)))"
    by (rule out)
  have "map (csv_row (T_ref secs)) (linspace (S_center * 0.9) (S_center * 1.1) 21) ! i
          = csv_row (T_ref secs) (linspace (S_center * 0.9) (S_center * 1.1) 21 ! i)"
    using i by (simp only: nth_map length_linspace)
  then show "map (csv_row (T_ref secs)) (linspace (S_center * 0.9) (S_center * 1.1) 21) ! i
          = map Num
              [linspace (S_center * 0.9) (S_center * 1.1) 21 ! i,
               bs_call (projr (bs_call_put (linspace (S_center * 0.9) (S_center * 1.1) 21 ! i)
                             K_input r_input sigma_input (T_ref secs))),
               bs_put (projr (bs_call_put (linspace (S_center * 0.9) (S_center * 1.1) 21 ! i)
                             K_input r_input sigma_input (T_ref secs))),
               bs_call_delta (projr (bs_call_put (linspace (S_center * 0.9) (S_center * 1.1) 21 ! i)
                             K_input r_input sigma_input (T_ref secs))),
               bs_put_delta (projr (bs_call_put (linspace (S_center * 0.9) (S_center * 1.1) 21 ! i)
                             K_input r_input sigma_input (T_ref secs))),
               bs_gamma (projr (bs_call_put (linspace (S_center * 0.9) (S_center * 1.1) 21 ! i)
                             K_input r_input sigma_input (T_ref secs))),
               bs_vega (projr (bs_call_put (linspace (S_center * 0.9) (S_center * 1.1) 21 ! i)
                             K_input r_input sigma_input (T_ref secs))),
               bs_call_theta (projr (bs_call_put (linspace (S_center * 0.9) (S_center * 1.1) 21 ! i)
                             K_input r_input sigma_input (T_ref secs))),
               bs_put_theta (projr (bs_call_put (linspace (S_center * 0.9) (S_center * 1.1) 21 ! i)
                             K_input r_input sigma_input (T_ref secs)))]"
    by (simp only: csv_row_def Let_def)
qed

theorem sample_atm_csv_layout_witness:
  "\<exists>rows out.
     sample_atm_csv 86400 =
       Inr (map Title [''S'', ''CallPrice'', ''PutPrice'', ''CallDelta'', ''PutDelta'',
                       ''Gamma'', ''Vega'', ''CallTheta_per_day'', ''PutTheta_per_day'']
            # rows)
     \<and> length rows = 21
     \<and> (20 :: nat) < 21
     \<and> bs_call_put 90200 K_input r_input sigma_input (T_ref 86400) = Inr out
     \<and> rows ! 20 = map Num [90200, bs_call out, bs_put out, bs_call_delta out,
                              bs_put_delta out, bs_gamma out, bs_vega out,
                              bs_call_theta out, bs_put_theta out]"
proof -
  from sample_atm_csv_layout [of 86400] obtain rows where
    r: "sample_atm_csv 86400 =
          Inr (map Title [''S'', ''CallPrice'', ''PutPrice'', ''CallDelta'', ''PutDelta'',
                          ''Gamma'', ''Vega'', ''CallTheta_per_day'', ''PutTheta_per_day'']
               # rows)"
       "length rows = 21"
    and a: "\<forall>i<21. \<exists>S out.
           S = linspace (S_center * 0.9) (S_center * 1.1) 21 ! i
         \<and> S = S_center * 0.9 + real i * (S_center * 1.1 - S_center * 0.9) / 20
         \<and> S = 73800 + 820 * real i
         \<and> bs_call_put S K_input r_input sigma_input (T_ref 86400) = Inr out
         \<and> rows ! i = map Num [S, bs_call out, bs_put out, bs_call_delta out,
                                bs_put_delta out, bs_gamma out, bs_vega out,
                                bs_call_theta out, bs_put_theta out]"
    by blast
  have "(20 :: nat) < 21" by simp
  with a obtain S out where
    s: "S = 73800 + 820 * real (20 :: nat)"
       "bs_call_put S K_input r_input sigma_input (T_ref 86400) = Inr out"
       "rows ! 20 = map Num [S, bs_call out, bs_put out, bs_call_delta out,
                             bs_put_delta out, bs_gamma out, bs_vega out,
                             bs_call_theta out, bs_put_theta out]"
    by blast
  from s(1) have "S = 90200" by simp
  with r s(2,3) show ?thesis by auto
qed

section \<open>The parity charts: claims\<close>

text \<open>
  C9 (as amended). \<^verbatim>\<open>bond_payoff\<close> is dead: whether its assignment is kept, changed to
  any other value or deleted, the script plots the same two curves.
  \<^verbatim>\<open>fiduciary_call_total\<close> is not dead: it is the curve of the second chart, drawn
  against \<^verbatim>\<open>S_T\<close>; only the term \<open>K - K\<close> in it has no effect, so that the curve is
  \<open>max (S_T - K) 0 - call_premium\<close>, the call payoff.
\<close>

theorem call_put_parity_dead_code:
  "call_put_parity_edited bond_edit Unchanged = Inr call_put_parity_plots
   \<and> call_put_parity_plots =
       [(linspace 50 150 300,
         map2 (+) (map (\<lambda>s. s - 100) (linspace 50 150 300))
                  (map (\<lambda>s. max (95 - s) 0 - 4) (linspace 50 150 300))),
        (linspace 50 150 300, map (\<lambda>s. max (s - 95) 0 - 4) (linspace 50 150 300))]"
  by (cases bond_edit)
     (simp_all add: call_put_parity_edited_def call_put_parity_plots_def Let_def)

text \<open>
  C9 as it is written also calls \<^verbatim>\<open>fiduciary_call_total\<close> dead. Changing its assignment
  to a flat line of 300 zeros changes what is plotted (the second curve starts at \<open>-4\<close>
  in the script and at \<open>0\<close> after the change), and deleting the assignment makes the
  second \<^verbatim>\<open>plt.plot\<close> raise.
\<close>

theorem call_put_parity_fiduciary_is_plotted:
  "call_put_parity_edited Unchanged (Altered (replicate 300 0)) \<noteq> Inr call_put_parity_plots
   \<and> call_put_parity_edited Unchanged Removed = Inl NameError"
proof
  show "call_put_parity_edited Unchanged (Altered (replicate 300 0)) \<noteq> Inr call_put_parity_plots"
  proof
    assume "call_put_parity_edited Unchanged (Altered (replicate 300 0)) = Inr call_put_parity_plots"
    then have "replicate 300 (0 :: real) = map (\<lambda>s. max (s - 95) 0 - 4) (linspace 50 150 300)"
      by (simp add: call_put_parity_edited_def call_put_parity_plots_def Let_def)
    then have "replicate 300 (0 :: real) ! 0
                 = map (\<lambda>s. max (s - 95) 0 - 4) (linspace 50 150 300) ! 0"
      by simp
    then show False
      by (simp add: length_linspace S_T_first)
  qed
next
  show "call_put_parity_edited Unchanged Removed = Inl NameError"
    by (simp add: call_put_parity_edited_def Let_def)
qed

end
